theory Spec2Isabelle
  imports Main
begin

section \<open>Errors\<close>

text \<open>
  A Go \<open>error\<close> is a value. The broker builds its errors with \<open>errors.New\<close> and
  \<open>fmt.Errorf\<close>, and returns two sentinel errors of the API library. \<open>Errorf\<close> keeps the
  format string and the arguments; \<open>Error\<close> renders the message.
\<close>

datatype error =
    ErrAsyncRequired
  | ErrInstanceDoesNotExist
  | New string
  | Errorf string "error_arg list"
and error_arg =
    ArgString string
  | ArgError error

text \<open>
  \<open>%q\<close> of a string, as \<open>strconv.Quote\<close> writes it, byte by byte: a backslash before a
  double quote and before a backslash; a printable ASCII character as it is; the control
  characters 7 to 13 as \<open>a b t n v f r\<close> after a backslash; any other control character and
  127 as a backslash, \<open>x\<close> and two lower-case hexadecimal digits; double quotes around the
  whole. A byte from 128 up is kept as it is: it is part of a multi-byte rune, which \<open>Quote\<close>
  keeps when the rune is valid and printable. The tables that say which of those runes are
  printable are not modelled, so \<open>quote\<close> is exact on ASCII strings.
\<close>

definition lowerhex :: "nat \<Rightarrow> char" where
  "lowerhex n = ''0123456789abcdef'' ! (n mod 16)"

definition quoteByte :: "char \<Rightarrow> string" where
  "quoteByte c =
     (let n = (of_char c :: nat) in
      if c = CHR 0x22 \<or> c = CHR 0x5C then [CHR 0x5C, c]
      else if 0x20 \<le> n \<and> n < 0x7F then [c]
      else if n = 0x07 then [CHR 0x5C, CHR ''a'']
      else if n = 0x08 then [CHR 0x5C, CHR ''b'']
      else if n = 0x0C then [CHR 0x5C, CHR ''f'']
      else if n = 0x0A then [CHR 0x5C, CHR ''n'']
      else if n = 0x0D then [CHR 0x5C, CHR ''r'']
      else if n = 0x09 then [CHR 0x5C, CHR ''t'']
      else if n = 0x0B then [CHR 0x5C, CHR ''v'']
      else if n < 0x20 \<or> n = 0x7F then [CHR 0x5C, CHR ''x'', lowerhex (n div 16), lowerhex n]
      else [c])"

definition quote :: "string \<Rightarrow> string" where
  "quote s = CHR 0x22 # concat (map quoteByte s) @ [CHR 0x22]"

text \<open>
  The formatter for the verbs the broker uses: \<open>%s\<close>, \<open>%w\<close> and \<open>%v\<close> print the argument
  as it is, \<open>%q\<close> quotes it, \<open>%%\<close> is a percent sign. A verb without an argument prints
  \<open>%!v(MISSING)\<close>, as \<open>fmt\<close> does.
\<close>

fun Sprintf :: "string \<Rightarrow> string list \<Rightarrow> string" where
  "Sprintf [] args = []"
| "Sprintf [c] args = [c]"
| "Sprintf (c # v # fmt) args =
     (if c = CHR ''%'' then
        (if v = CHR ''%'' then CHR ''%'' # Sprintf fmt args
         else (case args of
                 [] \<Rightarrow> ''%!'' @ [v] @ ''(MISSING)'' @ Sprintf fmt []
               | a # as \<Rightarrow> (if v = CHR ''q'' then quote a else a) @ Sprintf fmt as))
      else c # Sprintf (v # fmt) args)"

fun Error :: "error \<Rightarrow> string"
and arg_text :: "error_arg \<Rightarrow> string" where
  "Error ErrAsyncRequired = ''This service plan requires client support for asynchronous service operations.''"
| "Error ErrInstanceDoesNotExist = ''instance does not exist''"
| "Error (New s) = s"
| "Error (Errorf f args) = Sprintf f (map arg_text args)"
| "arg_text (ArgString s) = s"
| "arg_text (ArgError e) = Error e"

section \<open>Encryption capability\<close>

text \<open>A byte slice is a list of bytes; \<open>char\<close> is a byte.\<close>

type_synonym bytes = string

text \<open>The \<open>Encryptor\<close> interface the store is built on.\<close>

record Encryptor =
  Encrypt :: "bytes \<Rightarrow> error + bytes"
  Decrypt :: "bytes \<Rightarrow> error + bytes"

text \<open>\<open>noopencryptor\<close>: both methods return their argument and a nil error.\<close>

definition NoopEncryptor :: Encryptor where
  "NoopEncryptor = \<lparr> Encrypt = (\<lambda>plaintext. Inr plaintext), Decrypt = (\<lambda>ciphertext. Inr ciphertext) \<rparr>"



section \<open>Store: encoding and decoding\<close>

text \<open>The database row of a Terraform deployment (\<open>models.TerraformDeployment\<close>), as the
  store's tests create it: the workspace column holds the encrypted blob.\<close>

record TerraformDeploymentModel =
  model_ID :: string
  model_Workspace :: bytes
  model_LastOperationType :: string
  model_LastOperationState :: string
  model_LastOperationMessage :: string

text \<open>\<open>Storage\<close>: the encryptor and the database, here the table of Terraform deployments
  by primary key.\<close>

record Storage =
  encryptor :: Encryptor
  db :: "string \<rightharpoonup> TerraformDeploymentModel"

text \<open>\<open>Storage.encodeBytes\<close>, \<open>encodeJSON\<close>, \<open>decodeBytes\<close> and \<open>decodeJSON\<close>.
  \<open>json.Marshal\<close> and \<open>json.Unmarshal\<close> are the standard library's and are parameters;
  \<open>Unmarshal\<close> writes through the receiver pointer, so it returns the receiver it leaves.\<close>

definition encodeBytes :: "Storage \<Rightarrow> bytes \<Rightarrow> error + bytes" where
  "encodeBytes s b =
     (case Encrypt (encryptor s) b of
        Inl err \<Rightarrow> Inl (Errorf ''encryption error: %w'' [ArgError err])
      | Inr c \<Rightarrow> Inr c)"

definition encodeJSON :: "('a \<Rightarrow> error + bytes) \<Rightarrow> Storage \<Rightarrow> 'a \<Rightarrow> error + bytes" where
  "encodeJSON Marshal s a =
     (case Marshal a of
        Inl err \<Rightarrow> Inl (Errorf ''JSON marshal error: %w'' [ArgError err])
      | Inr b \<Rightarrow> encodeBytes s b)"

definition decodeBytes :: "Storage \<Rightarrow> bytes \<Rightarrow> error + bytes" where
  "decodeBytes s a =
     (case Decrypt (encryptor s) a of
        Inl err \<Rightarrow> Inl (Errorf ''decryption error: %w'' [ArgError err])
      | Inr d \<Rightarrow> Inr d)"

definition decodeJSON ::
  "(bytes \<Rightarrow> 'r \<Rightarrow> error option \<times> 'r) \<Rightarrow> Storage \<Rightarrow> bytes \<Rightarrow> 'r \<Rightarrow> error option \<times> 'r" where
  "decodeJSON Unmarshal s a receiver =
     (case decodeBytes s a of
        Inl err \<Rightarrow> (Some err, receiver)
      | Inr b \<Rightarrow>
          if length b = 0 then (None, receiver)
          else (case Unmarshal b receiver of
                  (Some err, receiver') \<Rightarrow> (Some (Errorf ''JSON parse error: %w'' [ArgError err]), receiver')
                | (None, receiver') \<Rightarrow> (None, receiver')))"

text \<open>The deployment record the store hands out (\<open>storage.TerraformDeployment\<close>), with the
  workspace decoded.\<close>

record 'w TerraformDeployment =
  ID :: string
  Workspace :: 'w
  LastOperationType :: string
  LastOperationState :: string
  LastOperationMessage :: string

text \<open>
  Modelled from the spec: \<open>Storage.GetTerraformDeployment\<close> is not in the sources, only its
  tests and the decoding helpers above are. The spec, section 4.4: \<open>GetTerraformDeployment(id)\<close>
  returns the record or \<open>NotFoundError\<close>; it decrypts, and fails \<open>DecodingError\<close>, wrapping the
  decryption cause, distinct from \<open>NotFoundError\<close>; section 3: the decode of a blob that
  cannot be decoded is a hard failure, never a silent default. The tests fix the two
  messages: \<open>could not find terraform deployment: not-there\<close> and
  \<open>error decoding workspace "fake-id-1": decryption error: bang\<close>. The decryption is
  \<open>decodeBytes\<close>; how the decrypted bytes become the workspace is left open by the spec and the
  tests and is the parameter \<open>Deserialize\<close>, whose failure is a decoding error too.
\<close>

definition GetTerraformDeployment ::
  "(bytes \<Rightarrow> error + 'w) \<Rightarrow> Storage \<Rightarrow> string \<Rightarrow> error + 'w TerraformDeployment" where
  "GetTerraformDeployment Deserialize s id' =
     (case db s id' of
        None \<Rightarrow> Inl (Errorf ''could not find terraform deployment: %s'' [ArgString id'])
      | Some receiver \<Rightarrow>
          (case decodeBytes s (model_Workspace receiver) of
             Inl err \<Rightarrow>
               Inl (Errorf ''error decoding workspace %q: %w'' [ArgString id', ArgError err])
           | Inr decoded \<Rightarrow>
               (case Deserialize decoded of
                  Inl err \<Rightarrow>
                    Inl (Errorf ''error decoding workspace %q: %w'' [ArgString id', ArgError err])
                | Inr tfWorkspace \<Rightarrow>
                    Inr \<lparr> ID = id',
                          Workspace = tfWorkspace,
                          LastOperationType = model_LastOperationType receiver,
                          LastOperationState = model_LastOperationState receiver,
                          LastOperationMessage = model_LastOperationMessage receiver \<rparr>)))"

text \<open>Test doubles for the store, after the store's tests: an encryptor whose \<open>Decrypt\<close>
  fails with \<open>bang\<close>, a JSON parser and a deserialiser that reject every input, and a
  database with the row \<open>fake-id-1\<close>.\<close>

definition failingDecryptor :: Encryptor where
  "failingDecryptor = \<lparr> Encrypt = Inr, Decrypt = (\<lambda>ciphertext. Inl (New ''bang'')) \<rparr>"

definition rejectingUnmarshal :: "bytes \<Rightarrow> 'r \<Rightarrow> error option \<times> 'r" where
  "rejectingUnmarshal b receiver = (Some (New ''unexpected end of JSON input''), receiver)"

definition rejectingDeserialize :: "bytes \<Rightarrow> error + unit" where
  "rejectingDeserialize b = Inl (New ''unexpected end of JSON input'')"

definition fakeTerraformDeployments :: "string \<rightharpoonup> TerraformDeploymentModel" where
  "fakeTerraformDeployments =
     [''fake-id-1'' \<mapsto> \<lparr> model_ID = ''fake-id-1'', model_Workspace = ''{}'',
                          model_LastOperationType = ''create'', model_LastOperationState = ''succeeded'',
                          model_LastOperationMessage = ''amazing'' \<rparr>]"

definition fakeStorage :: "Encryptor \<Rightarrow> Storage" where
  "fakeStorage e = \<lparr> encryptor = e, db = fakeTerraformDeployments \<rparr>"

section \<open>Terraform upgrade checker\<close>

text \<open>
  Modelled from the spec: the version library is not in the sources; the spec speaks of a
  semantic-version comparison. A version is its list of numeric segments, compared from the
  left, a missing segment reading as zero (\<open>1.2\<close> equals \<open>1.2.0\<close>); prereleases are left out.
\<close>

type_synonym Version = "nat list"

fun Compare :: "Version \<Rightarrow> Version \<Rightarrow> int" where
  "Compare [] [] = 0"
| "Compare (a # as) [] = (if \<forall>x \<in> set (a # as). x = 0 then 0 else 1)"
| "Compare [] (b # bs) = (if \<forall>x \<in> set (b # bs). x = 0 then 0 else - 1)"
| "Compare (a # as) (b # bs) = (if a = b then Compare as bs else if a < b then - 1 else 1)"

definition LessThan :: "Version \<Rightarrow> Version \<Rightarrow> bool" where
  "LessThan v other = (Compare v other < 0)"

definition GreaterThan :: "Version \<Rightarrow> Version \<Rightarrow> bool" where
  "GreaterThan v other = (Compare v other > 0)"

text \<open>
  \<open>TerraformProvider\<close>, as far as the checker reads it: the deployment lookup of its store,
  the workspace of a deployment (\<open>TFWorkspace\<close>), the version recorded in a workspace's state
  (\<open>StateVersion\<close>, which fails on a state it cannot read) and the configured default version
  (\<open>tfBinContext.DefaultTfVersion\<close>). The first three are not in the sources and are fields.
\<close>

record ('d, 'w) TerraformProvider =
  provider_GetTerraformDeployment :: "string \<Rightarrow> error + 'd"
  TFWorkspace :: "'d \<Rightarrow> 'w"
  StateVersion :: "'w \<Rightarrow> error + Version"
  DefaultTfVersion :: Version

definition checkTerraformVersion :: "('d, 'w) TerraformProvider \<Rightarrow> 'w \<Rightarrow> error option" where
  "checkTerraformVersion provider workspace =
     (case StateVersion provider workspace of
        Inl err \<Rightarrow> Some err
      | Inr currentTfVersion \<Rightarrow>
          if LessThan currentTfVersion (DefaultTfVersion provider)
          then Some (New ''operation attempted with newer version of Terraform than current state, upgrade the service before retrying operation'')
          else None)"

definition CheckUpgradeAvailable :: "('d, 'w) TerraformProvider \<Rightarrow> string \<Rightarrow> error option" where
  "CheckUpgradeAvailable provider deploymentGUID =
     (case provider_GetTerraformDeployment provider deploymentGUID of
        Inl err \<Rightarrow> Some err
      | Inr deployment \<Rightarrow>
          (let workspace = TFWorkspace provider deployment in
           case checkTerraformVersion provider workspace of
             Some err \<Rightarrow> Some err
           | None \<Rightarrow> None))"

text \<open>A provider for examples: every deployment's state records the version \<open>recorded\<close>,
  and the configured default is \<open>configured\<close>.\<close>

definition exampleProvider :: "Version \<Rightarrow> Version \<Rightarrow> (Version, Version) TerraformProvider" where
  "exampleProvider recorded configured =
     \<lparr> provider_GetTerraformDeployment = (\<lambda>deploymentGUID. Inr recorded),
       TFWorkspace = (\<lambda>deployment. deployment),
       StateVersion = Inr,
       DefaultTfVersion = configured \<rparr>"

section \<open>Variable context builder\<close>

text \<open>
  Modelled from the spec: \<open>ContextBuilder\<close> (package varcontext) is not in the sources, only
  its tests are. The spec, section 4.3: the builder is chainable, single-owner and
  error-short-circuiting (the first failure makes later calls no-ops, \<open>Build\<close> surfaces the
  original error); \<open>Build\<close> finalises to a map view or returns the first error.

  The expression engine, the type cast and the JSON parser are outside the builder and are
  fields of \<open>Engine\<close>: \<open>templateText\<close> is the text an expression was written as, \<open>Eval\<close> evaluates an expression against a map of variables and fails on
  an unknown identifier or a failed assertion, \<open>castTo\<close> casts a value to a declared type and
  fails if that is impossible, \<open>UnmarshalObject\<close> parses the top level of a JSON object and
  fails on malformed or non-object input.
\<close>

record ('e, 'v) Engine =
  templateText :: "'e \<Rightarrow> string"
  Eval :: "'e \<Rightarrow> (string \<rightharpoonup> 'v) \<Rightarrow> error + 'v"
  castTo :: "'v \<Rightarrow> string \<Rightarrow> error + 'v"
  UnmarshalObject :: "bytes \<Rightarrow> error + (string \<rightharpoonup> 'v)"

text \<open>The builder: the plain context, the declared constants and the first error.\<close>

record 'v ContextBuilder =
  "context" :: "string \<rightharpoonup> 'v"
  constants :: "string \<rightharpoonup> 'v"
  errors :: "error option"

definition Builder :: "'v ContextBuilder" where
  "Builder = \<lparr> context = Map.empty, constants = Map.empty, errors = None \<rparr>"

text \<open>Modelled from the spec: \<open>SetEvalConstants(map)\<close>: constants visible to every later
  expression evaluation. What is declared therefore stays in force when more constants are
  declared later; a key declared again takes the later value, as everywhere in the builder.\<close>

definition SetEvalConstants :: "(string \<rightharpoonup> 'v) \<Rightarrow> 'v ContextBuilder \<Rightarrow> 'v ContextBuilder" where
  "SetEvalConstants cs builder =
     (if errors builder \<noteq> None then builder
      else builder\<lparr>constants := constants builder ++ cs\<rparr>)"

text \<open>Modelled from the spec: \<open>MergeMap(map)\<close>: unconditional last-write-wins per key.\<close>

definition MergeMap :: "(string \<rightharpoonup> 'v) \<Rightarrow> 'v ContextBuilder \<Rightarrow> 'v ContextBuilder" where
  "MergeMap data builder =
     (if errors builder \<noteq> None then builder
      else builder\<lparr>context := context builder ++ data\<rparr>)"

text \<open>Modelled from the spec: what an expression is evaluated against: the context
  accumulated so far, with the constants laid over it at a precedence that plain merges
  cannot shadow, even on same-named keys.\<close>

definition evaluationContext :: "'v ContextBuilder \<Rightarrow> (string \<rightharpoonup> 'v)" where
  "evaluationContext builder = context builder ++ constants builder"

text \<open>Modelled from the spec: \<open>MergeEvalResult(name, expr, type)\<close>: evaluates expr
  immediately, casts, stores; fails on an evaluation error or an impossible cast.\<close>

definition MergeEvalResult ::
  "('e, 'v) Engine \<Rightarrow> string \<Rightarrow> 'e \<Rightarrow> string \<Rightarrow> 'v ContextBuilder \<Rightarrow> 'v ContextBuilder" where
  "MergeEvalResult E key template resultType builder =
     (if errors builder \<noteq> None then builder
      else (case Eval E template (evaluationContext builder) of
              Inl err \<Rightarrow> builder\<lparr>errors := Some (Errorf ''couldn't compute the value for %q, template: %q, %v''
                                                   [ArgString key, ArgString (templateText E template), ArgError err])\<rparr>
            | Inr result \<Rightarrow>
                (case castTo E result resultType of
                   Inl err \<Rightarrow> builder\<lparr>errors := Some (Errorf ''couldn't convert the value for %q, template: %q, %v''
                                                        [ArgString key, ArgString (templateText E template), ArgError err])\<rparr>
                 | Inr converted \<Rightarrow> builder\<lparr>context := (context builder)(key \<mapsto> converted)\<rparr>)))"

text \<open>Modelled from the spec: \<open>MergeJSONObject(raw)\<close>: merges only the top-level keys of an
  object (nested values are opaque); fails on malformed or non-object input. A blank
  message merges nothing (test "MergeJSONObject blank message").\<close>

definition MergeJSONObject :: "('e, 'v) Engine \<Rightarrow> bytes \<Rightarrow> 'v ContextBuilder \<Rightarrow> 'v ContextBuilder" where
  "MergeJSONObject E data builder =
     (if errors builder \<noteq> None then builder
      else if length data = 0 then builder
      else (case UnmarshalObject E data of
              Inl err \<Rightarrow> builder\<lparr>errors := Some err\<rparr>
            | Inr out \<Rightarrow> MergeMap out builder))"

text \<open>Modelled from the spec: \<open>MergeDefaultWithEval(defaults)\<close>: each entry has a name, a
  default, a declared type and an overwrite flag; the default is template-evaluated against
  the context accumulated so far, then cast to the type; it overwrites an existing key only
  if the flag is set. By the tests an entry without a default is skipped and a default that
  is not a string is stored as it is.\<close>

datatype ('e, 'v) default_value = NoDefault | Template 'e | Plain 'v

record ('e, 'v) DefaultVariable =
  Name :: string
  Default :: "('e, 'v) default_value"
  Overwrite :: bool
  Type :: string

definition MergeDefault ::
  "('e, 'v) Engine \<Rightarrow> ('e, 'v) DefaultVariable \<Rightarrow> 'v ContextBuilder \<Rightarrow> 'v ContextBuilder" where
  "MergeDefault E v builder =
     (if errors builder \<noteq> None then builder
      else (case Default v of
              NoDefault \<Rightarrow> builder
            | Template strVal \<Rightarrow>
                if context builder (Name v) \<noteq> None \<and> \<not> Overwrite v then builder
                else MergeEvalResult E (Name v) strVal (Type v) builder
            | Plain d \<Rightarrow>
                if context builder (Name v) \<noteq> None \<and> \<not> Overwrite v then builder
                else builder\<lparr>context := (context builder)(Name v \<mapsto> d)\<rparr>))"

definition MergeDefaultWithEval ::
  "('e, 'v) Engine \<Rightarrow> ('e, 'v) DefaultVariable list \<Rightarrow> 'v ContextBuilder \<Rightarrow> 'v ContextBuilder" where
  "MergeDefaultWithEval E brokerVariables builder = foldl (\<lambda>b v. MergeDefault E v b) builder brokerVariables"

text \<open>Modelled from the spec: \<open>MergeStruct(value)\<close>: merges the named fields, under the
  external name if one is declared, else under the field's own name. A struct is the list
  of its fields.\<close>

record 'v struct_field =
  field_name :: string
  json_name :: "string option"
  field_value :: 'v

definition MergeStruct :: "'v struct_field list \<Rightarrow> 'v ContextBuilder \<Rightarrow> 'v ContextBuilder" where
  "MergeStruct fs builder =
     MergeMap (map_of (rev (map (\<lambda>f. (case json_name f of Some n \<Rightarrow> n | None \<Rightarrow> field_name f, field_value f)) fs))) builder"

text \<open>Modelled from the spec: \<open>Build()\<close> finalises to an immutable map view or returns the
  first encountered error.\<close>

definition Build :: "'v ContextBuilder \<Rightarrow> error + (string \<rightharpoonup> 'v)" where
  "Build builder = (case errors builder of Some err \<Rightarrow> Inl err | None \<Rightarrow> Inr (context builder))"

text \<open>A chain of builder calls, applied from the left.\<close>

datatype ('e, 'v) builder_call =
    CallMergeMap "string \<rightharpoonup> 'v"
  | CallMergeJSONObject bytes
  | CallMergeEvalResult string 'e string
  | CallMergeDefaultWithEval "('e, 'v) DefaultVariable list"
  | CallMergeStruct "'v struct_field list"
  | CallSetEvalConstants "string \<rightharpoonup> 'v"

fun call :: "('e, 'v) Engine \<Rightarrow> ('e, 'v) builder_call \<Rightarrow> 'v ContextBuilder \<Rightarrow> 'v ContextBuilder" where
  "call E (CallMergeMap m) b = MergeMap m b"
| "call E (CallMergeJSONObject raw) b = MergeJSONObject E raw b"
| "call E (CallMergeEvalResult key template resultType) b = MergeEvalResult E key template resultType b"
| "call E (CallMergeDefaultWithEval vs) b = MergeDefaultWithEval E vs b"
| "call E (CallMergeStruct fs) b = MergeStruct fs b"
| "call E (CallSetEvalConstants cs) b = SetEvalConstants cs b"

definition chain :: "('e, 'v) Engine \<Rightarrow> ('e, 'v) builder_call list \<Rightarrow> 'v ContextBuilder \<Rightarrow> 'v ContextBuilder" where
  "chain E calls b = foldl (\<lambda>b c. call E c b) b calls"

text \<open>A small engine to run the builder's test cases with: a value is a string, a number
  kept as its decimal literal, or an object; an expression is literal text or one reference
  \<open>${name}\<close>; a number cast to \<open>string\<close> is its literal; the JSON parser knows the
  messages of the examples below and rejects everything else.\<close>

datatype test_value =
    StringValue string
  | NumberValue string
  | ObjectValue "(string \<times> test_value) list"

datatype test_template = Literal string | Reference string

definition testEngine :: "(test_template, test_value) Engine" where
  "testEngine = \<lparr>
     templateText = (\<lambda>t. case t of Literal s \<Rightarrow> s | Reference x \<Rightarrow> ''${'' @ x @ ''}''),
     Eval = (\<lambda>t vars. case t of
               Literal s \<Rightarrow> Inr (StringValue s)
             | Reference x \<Rightarrow> (case vars x of
                                None \<Rightarrow> Inl (New (''unknown variable accessed: '' @ x))
                              | Some v \<Rightarrow> Inr v)),
     castTo = (\<lambda>v t.
               if t = [] \<or> t = ''string'' then
                 (case v of
                    StringValue s \<Rightarrow> Inr (StringValue s)
                  | NumberValue n \<Rightarrow> Inr (StringValue n)
                  | ObjectValue kvs \<Rightarrow> Inl (New ''cannot cast an object to string''))
               else if t = ''number'' then
                 (case v of
                    StringValue s \<Rightarrow> Inr (NumberValue s)
                  | NumberValue n \<Rightarrow> Inr (NumberValue n)
                  | ObjectValue kvs \<Rightarrow> Inl (New ''cannot cast an object to number''))
               else Inl (New (''couldn't cast to '' @ t @ '', unknown type''))),
     UnmarshalObject = (\<lambda>raw.
               if raw = ''{\"foo\":{\"bar\":\"baz\",\"quz\":\"buz\"},\"baz\":\"bar\"}'' then
                 Inr [''foo'' \<mapsto> ObjectValue [(''bar'', StringValue ''baz''), (''quz'', StringValue ''buz'')],
                      ''baz'' \<mapsto> StringValue ''bar'']
               else if raw = ''{\"foo\":{\"bar\":\"quz\"}}'' then
                 Inr [''foo'' \<mapsto> ObjectValue [(''bar'', StringValue ''quz'')]]
               else if raw = ''{\"baz\":\"quz\"}'' then
                 Inr [''baz'' \<mapsto> StringValue ''quz'']
               else Inl (New ''invalid character'')) \<rparr>"

text \<open>Chains of the examples: plain merges with overwritten keys, after the tests
  "MergeMap overwrite", "MergeJSONObject duplicate keys at top level" and "MergeJSONObject
  only merges top level key/values"; the spec's scenario of a constant and a plain merge of
  the same key, followed by a second constant and merge; and the test "User overrides constant".\<close>

definition exampleMerges :: "(test_template, test_value) builder_call list" where
  "exampleMerges =
     [CallMergeMap [''a'' \<mapsto> StringValue ''a''],
      CallMergeJSONObject ''{\"foo\":{\"bar\":\"baz\",\"quz\":\"buz\"},\"baz\":\"bar\"}'',
      CallMergeMap [''a'' \<mapsto> StringValue ''aaa''],
      CallMergeJSONObject ''{\"foo\":{\"bar\":\"quz\"}}'',
      CallMergeJSONObject ''{\"baz\":\"quz\"}'',
      CallMergeJSONObject []]"

definition constantScenario :: "(test_template, test_value) builder_call list" where
  "constantScenario =
     [CallSetEvalConstants [''PI'' \<mapsto> NumberValue ''3.14''],
      CallMergeMap [''PI'' \<mapsto> NumberValue ''3.2''],
      CallSetEvalConstants [''E'' \<mapsto> NumberValue ''2.72''],
      CallMergeMap [''E'' \<mapsto> NumberValue ''3'']]"

definition userOverridesConstant :: "(test_template, test_value) builder_call list" where
  "userOverridesConstant =
     [CallSetEvalConstants [''PI'' \<mapsto> NumberValue ''3.14''],
      CallMergeMap [''PI'' \<mapsto> NumberValue ''3.2''],
      CallMergeEvalResult ''PI'' (Reference ''PI'') ''string'']"

section \<open>Terraform 0.12 invoker\<close>

text \<open>The commands of package \<open>command\<close>, by the constructor that makes them.\<close>

datatype TerraformCommand =
    NewInit012 string
  | NewApply
  | NewShow
  | NewDestroy
  | NewPlan
  | NewImport string string

record ExecutionOutput =
  StdOut :: string
  StdErr :: string

record 'ex Terraform012Invoker =
  executor :: 'ex
  pluginDirectory :: string

definition NewTerraform012Invoker :: "'ex \<Rightarrow> string \<Rightarrow> 'ex Terraform012Invoker" where
  "NewTerraform012Invoker ex dir = \<lparr> executor = ex, pluginDirectory = dir \<rparr>"

text \<open>
  The workspace is an interface; its \<open>Execute\<close> takes the executor and the commands and
  returns the output and the error. It is the first argument of each method below, and it
  passes the workspace, whose state it may change, along.
\<close>

type_synonym ('ws, 'ex) Execute =
  "'ws \<Rightarrow> 'ex \<Rightarrow> TerraformCommand list \<Rightarrow> (ExecutionOutput \<times> error option) \<times> 'ws"

definition Apply :: "('ws, 'ex) Execute \<Rightarrow> 'ex Terraform012Invoker \<Rightarrow> 'ws \<Rightarrow> error option \<times> 'ws" where
  "Apply Execute cmd workspace =
     (case Execute workspace (executor cmd) [NewInit012 (pluginDirectory cmd), NewApply] of
        ((_, err), workspace') \<Rightarrow> (err, workspace'))"

definition Show :: "('ws, 'ex) Execute \<Rightarrow> 'ex Terraform012Invoker \<Rightarrow> 'ws \<Rightarrow> (string \<times> error option) \<times> 'ws" where
  "Show Execute cmd workspace =
     (case Execute workspace (executor cmd) [NewInit012 (pluginDirectory cmd), NewShow] of
        ((output, err), workspace') \<Rightarrow> ((StdOut output, err), workspace'))"

definition Destroy :: "('ws, 'ex) Execute \<Rightarrow> 'ex Terraform012Invoker \<Rightarrow> 'ws \<Rightarrow> error option \<times> 'ws" where
  "Destroy Execute cmd workspace =
     (case Execute workspace (executor cmd) [NewInit012 (pluginDirectory cmd), NewDestroy] of
        ((_, err), workspace') \<Rightarrow> (err, workspace'))"

definition Plan ::
  "('ws, 'ex) Execute \<Rightarrow> 'ex Terraform012Invoker \<Rightarrow> 'ws \<Rightarrow> (ExecutionOutput \<times> error option) \<times> 'ws" where
  "Plan Execute cmd workspace =
     Execute workspace (executor cmd) [NewInit012 (pluginDirectory cmd), NewPlan]"

text \<open>\<open>Import\<close> ranges over a Go map, in an order the language leaves open: \<open>resources\<close>
  is the list of the map's pairs in the order the range yields them. The loop appends one
  command per pair.\<close>

definition Import ::
  "('ws, 'ex) Execute \<Rightarrow> 'ex Terraform012Invoker \<Rightarrow> 'ws \<Rightarrow> (string \<times> string) list \<Rightarrow> error option \<times> 'ws" where
  "Import Execute cmd workspace resources =
     (let commands = [NewInit012 (pluginDirectory cmd)];
          commands = foldl (\<lambda>commands (resource, id'). commands @ [NewImport resource id']) commands resources
      in case Execute workspace (executor cmd) commands of
           ((_, err), workspace') \<Rightarrow> (err, workspace'))"

text \<open>A workspace that records each call of \<open>Execute\<close> and answers with a fixed result.\<close>

record 'ex FakeWorkspace =
  ExecuteReturns :: "ExecutionOutput \<times> error option"
  ExecuteCalls :: "('ex \<times> TerraformCommand list) list"

definition FakeExecute :: "('ex FakeWorkspace, 'ex) Execute" where
  "FakeExecute workspace ex commands =
     (ExecuteReturns workspace, workspace\<lparr>ExecuteCalls := ExecuteCalls workspace @ [(ex, commands)]\<rparr>)"

text \<open>
  Modelled from the spec: \<open>TerraformWorkspace.Execute\<close> is not in the sources. The spec: a
  command sequence executes in order, aborting at first failure; any step failure aborts the
  remaining steps and returns the output so far plus the error. The executor is a function
  from a command to its output and error; the workspace state is the list of commands run.
\<close>

fun runCommands ::
  "(TerraformCommand \<Rightarrow> ExecutionOutput \<times> error option) \<Rightarrow> ExecutionOutput \<Rightarrow> TerraformCommand list
     \<Rightarrow> (ExecutionOutput \<times> error option) \<times> TerraformCommand list" where
  "runCommands ex lastOutput [] = ((lastOutput, None), [])"
| "runCommands ex lastOutput (c # cs) =
     (case ex c of
        (out, Some err) \<Rightarrow> ((out, Some err), [c])
      | (out, None) \<Rightarrow> (case runCommands ex out cs of (r, executed) \<Rightarrow> (r, c # executed)))"

definition Execute ::
  "(TerraformCommand list, TerraformCommand \<Rightarrow> ExecutionOutput \<times> error option) Execute" where
  "Execute workspace ex commands =
     (case runCommands ex \<lparr> StdOut = [], StdErr = [] \<rparr> commands of
        (r, executed) \<Rightarrow> (r, workspace @ executed))"

section \<open>Service broker: deprovision\<close>

text \<open>The request and response of the API library, and the instance row, with the fields
  \<open>Deprovision\<close> reads and writes.\<close>

record DeprovisionDetails =
  PlanID :: string
  ServiceID :: string

record DeprovisionServiceSpec =
  IsAsync :: bool
  OperationData :: string

record ServiceInstanceDetails =
  GUID :: string
  ServiceGUID :: string
  PlanGUID :: string
  OperationType :: string
  OperationGUID :: string

text \<open>\<open>paramparser.ProvisionDetails\<close>, as \<open>Deprovision\<close> fills it.\<close>

record 'p ProvisionDetails =
  provision_ServiceID :: string
  provision_PlanID :: string
  RequestParams :: 'p

text \<open>\<open>models.DeprovisionOperationType\<close>; the constant is declared outside the sources.\<close>

definition DeprovisionOperationType :: string where
  "DeprovisionOperationType = ''deprovision''"

text \<open>
  Modelled from the spec: the broker's store is not in the sources. The spec, section 6:
  persistent table access is create, find, update and delete by primary key, with opaque
  error surfacing; deleting an absent id is success. The store holds the table of instance
  rows and the table of cached provision request parameters, both by instance id. Any call
  may fail with a database error: \<open>faults\<close> says which calls do, and a failed call leaves the
  tables as they are. \<open>journal\<close> lists the calls made, in order.
\<close>

datatype StoreCall =
    CallExistsServiceInstanceDetails string
  | CallGetServiceInstanceDetails string
  | CallGetProvisionRequestDetails string
  | CallDeleteServiceInstanceDetails string
  | CallDeleteProvisionRequestDetails string
  | CallStoreServiceInstanceDetails ServiceInstanceDetails

record 'p Store =
  instances :: "string \<rightharpoonup> ServiceInstanceDetails"
  requests :: "string \<rightharpoonup> 'p"
  faults :: "StoreCall \<Rightarrow> error option"
  journal :: "StoreCall list"

definition record_call :: "StoreCall \<Rightarrow> 'p Store \<Rightarrow> 'p Store" where
  "record_call c s = s\<lparr>journal := journal s @ [c]\<rparr>"

definition ExistsServiceInstanceDetails :: "string \<Rightarrow> 'p Store \<Rightarrow> (error + bool) \<times> 'p Store" where
  "ExistsServiceInstanceDetails guid s =
     (case faults s (CallExistsServiceInstanceDetails guid) of
        Some err \<Rightarrow> (Inl err, record_call (CallExistsServiceInstanceDetails guid) s)
      | None \<Rightarrow> (Inr (instances s guid \<noteq> None), record_call (CallExistsServiceInstanceDetails guid) s))"

definition GetServiceInstanceDetails ::
  "string \<Rightarrow> 'p Store \<Rightarrow> (error + ServiceInstanceDetails) \<times> 'p Store" where
  "GetServiceInstanceDetails guid s =
     (case faults s (CallGetServiceInstanceDetails guid) of
        Some err \<Rightarrow> (Inl err, record_call (CallGetServiceInstanceDetails guid) s)
      | None \<Rightarrow>
          (case instances s guid of
             None \<Rightarrow> (Inl (Errorf ''could not find service instance details for: %s'' [ArgString guid]),
                       record_call (CallGetServiceInstanceDetails guid) s)
           | Some row \<Rightarrow> (Inr (row\<lparr>GUID := guid\<rparr>), record_call (CallGetServiceInstanceDetails guid) s)))"

definition GetProvisionRequestDetails :: "string \<Rightarrow> 'p Store \<Rightarrow> (error + 'p) \<times> 'p Store" where
  "GetProvisionRequestDetails guid s =
     (case faults s (CallGetProvisionRequestDetails guid) of
        Some err \<Rightarrow> (Inl err, record_call (CallGetProvisionRequestDetails guid) s)
      | None \<Rightarrow>
          (case requests s guid of
             None \<Rightarrow> (Inl (Errorf ''could not find provision request details for: %s'' [ArgString guid]),
                       record_call (CallGetProvisionRequestDetails guid) s)
           | Some params \<Rightarrow> (Inr params, record_call (CallGetProvisionRequestDetails guid) s)))"

definition DeleteServiceInstanceDetails :: "string \<Rightarrow> 'p Store \<Rightarrow> error option \<times> 'p Store" where
  "DeleteServiceInstanceDetails guid s =
     (case faults s (CallDeleteServiceInstanceDetails guid) of
        Some err \<Rightarrow> (Some err, record_call (CallDeleteServiceInstanceDetails guid) s)
      | None \<Rightarrow> (None, record_call (CallDeleteServiceInstanceDetails guid) (s\<lparr>instances := (instances s)(guid := None)\<rparr>)))"

definition DeleteProvisionRequestDetails :: "string \<Rightarrow> 'p Store \<Rightarrow> error option \<times> 'p Store" where
  "DeleteProvisionRequestDetails guid s =
     (case faults s (CallDeleteProvisionRequestDetails guid) of
        Some err \<Rightarrow> (Some err, record_call (CallDeleteProvisionRequestDetails guid) s)
      | None \<Rightarrow> (None, record_call (CallDeleteProvisionRequestDetails guid) (s\<lparr>requests := (requests s)(guid := None)\<rparr>)))"

definition StoreServiceInstanceDetails :: "ServiceInstanceDetails \<Rightarrow> 'p Store \<Rightarrow> error option \<times> 'p Store" where
  "StoreServiceInstanceDetails d s =
     (case faults s (CallStoreServiceInstanceDetails d) of
        Some err \<Rightarrow> (Some err, record_call (CallStoreServiceInstanceDetails d) s)
      | None \<Rightarrow> (None, record_call (CallStoreServiceInstanceDetails d) (s\<lparr>instances := (instances s)(GUID d \<mapsto> d)\<rparr>)))"

text \<open>
  What \<open>Deprovision\<close> calls outside the store: the lookup of the service definition and its
  provider, the provider's upgrade check and deprovision (a nil operation id is \<open>None\<close>), the
  definition's plan lookup and variable resolution, the id of the Terraform deployment of an
  instance, and the originating identity of the request context. None of them is in the
  sources, and none touches the two tables of the store.
\<close>

record ('def, 'prov, 'plan, 'vars, 'p, 'ctx, 'ident) ServiceBroker =
  getDefinitionAndProvider :: "string \<Rightarrow> error + ('def \<times> 'prov)"
  provider_CheckUpgradeAvailable :: "'prov \<Rightarrow> string \<Rightarrow> error option"
  generateTFInstanceID :: "string \<Rightarrow> string"
  GetPlanByID :: "'def \<Rightarrow> string \<Rightarrow> error + 'plan"
  DecodeOriginatingIdentityHeader :: "'ctx \<Rightarrow> 'ident"
  ProvisionVariables :: "'def \<Rightarrow> string \<Rightarrow> 'p ProvisionDetails \<Rightarrow> 'plan \<Rightarrow> 'ident \<Rightarrow> error + 'vars"
  provider_Deprovision :: "'prov \<Rightarrow> 'ctx \<Rightarrow> string \<Rightarrow> DeprovisionDetails \<Rightarrow> 'vars \<Rightarrow> error + string option"

text \<open>The part of \<open>Deprovision\<close> after the provider has answered with an operation id.\<close>

definition finishDeprovision ::
  "string \<Rightarrow> ServiceInstanceDetails \<Rightarrow> string option \<Rightarrow> 'p Store
     \<Rightarrow> (DeprovisionServiceSpec \<times> error option) \<times> 'p Store" where
  "finishDeprovision instanceID instance operationID s =
     (let response = \<lparr> IsAsync = False, OperationData = [] \<rparr> in
      case operationID of
        None \<Rightarrow>
          (case DeleteServiceInstanceDetails instanceID s of
             (Some err, s') \<Rightarrow>
               ((response, Some (Errorf ''error deleting instance details from database: %s. WARNING: this instance will remain visible in cf. Contact your operator for cleanup'' [ArgError err])), s')
           | (None, s') \<Rightarrow>
               (case DeleteProvisionRequestDetails instanceID s' of
                  (Some err, s'') \<Rightarrow>
                    ((response, Some (Errorf ''error deleting provision request details from the database: %w'' [ArgError err])), s'')
                | (None, s'') \<Rightarrow> ((response, None), s'')))
      | Some opID \<Rightarrow>
          (let response = response\<lparr>IsAsync := True, OperationData := opID\<rparr>;
               instance = instance\<lparr>OperationType := DeprovisionOperationType, OperationGUID := opID\<rparr>
           in case StoreServiceInstanceDetails instance s of
                (Some err, s') \<Rightarrow>
                  ((response, Some (Errorf ''error saving instance details to database: %s. WARNING: this instance will remain visible in cf. Contact your operator for cleanup'' [ArgError err])), s')
              | (None, s') \<Rightarrow> ((response, None), s')))"

text \<open>\<open>ServiceBroker.Deprovision\<close>. The result is the pair the Go function returns, the
  response and the error, and the store it leaves. The logger is left out.\<close>

definition Deprovision ::
  "('def, 'prov, 'plan, 'vars, 'p, 'ctx, 'ident) ServiceBroker \<Rightarrow> 'ctx \<Rightarrow> string \<Rightarrow> DeprovisionDetails \<Rightarrow> bool
     \<Rightarrow> 'p Store \<Rightarrow> (DeprovisionServiceSpec \<times> error option) \<times> 'p Store" where
  "Deprovision broker ctx instanceID details clientSupportsAsync s =
     (let response = \<lparr> IsAsync = False, OperationData = [] \<rparr> in
      if \<not> clientSupportsAsync then ((response, Some ErrAsyncRequired), s)
      else
        case ExistsServiceInstanceDetails instanceID s of
          (Inl err, s1) \<Rightarrow>
            ((response, Some (Errorf ''database error checking for existing instance: %s'' [ArgError err])), s1)
        | (Inr exists, s1) \<Rightarrow>
            if \<not> exists then ((response, Some ErrInstanceDoesNotExist), s1)
            else
              case GetServiceInstanceDetails instanceID s1 of
                (Inl err, s2) \<Rightarrow>
                  ((response, Some (Errorf ''database error getting existing instance: %s'' [ArgError err])), s2)
              | (Inr instance, s2) \<Rightarrow>
                  case getDefinitionAndProvider broker (ServiceGUID instance) of
                    Inl err \<Rightarrow> ((response, Some err), s2)
                  | Inr (serviceDefinition, serviceProvider) \<Rightarrow>
                      case provider_CheckUpgradeAvailable broker serviceProvider (generateTFInstanceID broker instanceID) of
                        Some err \<Rightarrow>
                          ((response, Some (Errorf ''failed to delete: %s'' [ArgString (Error err)])), s2)
                      | None \<Rightarrow>
                          case GetPlanByID broker serviceDefinition (PlanID details) of
                            Inl err \<Rightarrow> ((response, Some err), s2)
                          | Inr plan \<Rightarrow>
                              case GetProvisionRequestDetails instanceID s2 of
                                (Inl err, s3) \<Rightarrow>
                                  ((response, Some (Errorf ''error retrieving provision request details for %q: %w''
                                                      [ArgString instanceID, ArgError err])), s3)
                              | (Inr parameters, s3) \<Rightarrow>
                                  (let provisionDetails =
                                         \<lparr> provision_ServiceID = ServiceID details,
                                           provision_PlanID = PlanID details,
                                           RequestParams = parameters \<rparr>
                                   in case ProvisionVariables broker serviceDefinition instanceID provisionDetails plan
                                             (DecodeOriginatingIdentityHeader broker ctx) of
                                        Inl err \<Rightarrow> ((response, Some err), s3)
                                      | Inr vars \<Rightarrow>
                                          case provider_Deprovision broker serviceProvider ctx (GUID instance) details vars of
                                            Inl err \<Rightarrow> ((response, Some err), s3)
                                          | Inr operationID \<Rightarrow> finishDeprovision instanceID instance operationID s3))"

text \<open>A broker and a store for examples: every lookup outside the store succeeds and the
  provider answers with the given operation id; the store holds one instance,
  \<open>instance-1\<close>, with its cached request parameters, and fails as \<open>faults\<close> says.\<close>

definition exampleBroker :: "string option \<Rightarrow> (unit, unit, unit, unit, string, unit, unit) ServiceBroker" where
  "exampleBroker operationID =
     \<lparr> getDefinitionAndProvider = (\<lambda>serviceGUID. Inr ((), ())),
       provider_CheckUpgradeAvailable = (\<lambda>provider deploymentGUID. None),
       generateTFInstanceID = (\<lambda>instanceID. ''tf:'' @ instanceID @ '':''),
       GetPlanByID = (\<lambda>definition planID. Inr ()),
       DecodeOriginatingIdentityHeader = (\<lambda>ctx. ()),
       ProvisionVariables = (\<lambda>definition instanceID details plan identity. Inr ()),
       provider_Deprovision = (\<lambda>provider ctx guid details vars. Inr operationID) \<rparr>"

definition exampleInstance :: ServiceInstanceDetails where
  "exampleInstance =
     \<lparr> GUID = ''instance-1'', ServiceGUID = ''service-1'', PlanGUID = ''plan-1'',
       OperationType = ''provision'', OperationGUID = ''op-0'' \<rparr>"

definition exampleDetails :: DeprovisionDetails where
  "exampleDetails = \<lparr> PlanID = ''plan-1'', ServiceID = ''service-1'' \<rparr>"

definition noFaults :: "StoreCall \<Rightarrow> error option" where
  "noFaults c = None"

definition failOn :: "StoreCall \<Rightarrow> error \<Rightarrow> StoreCall \<Rightarrow> error option" where
  "failOn failing err c = (if c = failing then Some err else None)"

definition exampleStore :: "(StoreCall \<Rightarrow> error option) \<Rightarrow> string Store" where
  "exampleStore f =
     \<lparr> instances = [''instance-1'' \<mapsto> exampleInstance],
       requests = [''instance-1'' \<mapsto> ''{}''],
       faults = f,
       journal = [] \<rparr>"

text \<open>
  The words of the claims about chains of calls. \<open>supplied\<close> is the map a plain merge
  supplies: the map itself, or the top-level object a JSON message parses to (nothing for
  a blank or rejected message). \<open>lastWrite\<close> is the value supplied for a key by the last call
  of a chain that set that key. \<open>parses\<close> says that the message of a JSON merge is accepted.
\<close>

fun supplied :: "('e, 'v) Engine \<Rightarrow> ('e, 'v) builder_call \<Rightarrow> (string \<rightharpoonup> 'v)" where
  "supplied E (CallMergeMap m) = m"
| "supplied E (CallMergeJSONObject raw) =
     (if length raw = 0 then Map.empty
      else (case UnmarshalObject E raw of Inl err \<Rightarrow> Map.empty | Inr out \<Rightarrow> out))"
| "supplied E (CallMergeEvalResult key template resultType) = Map.empty"
| "supplied E (CallMergeDefaultWithEval vs) = Map.empty"
| "supplied E (CallMergeStruct fs) = Map.empty"
| "supplied E (CallSetEvalConstants cs) = Map.empty"

fun lastWrite :: "('e, 'v) Engine \<Rightarrow> ('e, 'v) builder_call list \<Rightarrow> string \<Rightarrow> 'v option" where
  "lastWrite E [] k = None"
| "lastWrite E (c # calls) k =
     (case lastWrite E calls k of Some v \<Rightarrow> Some v | None \<Rightarrow> supplied E c k)"

fun plain_merge :: "('e, 'v) builder_call \<Rightarrow> bool" where
  "plain_merge (CallMergeMap m) = True"
| "plain_merge (CallMergeJSONObject raw) = True"
| "plain_merge (CallMergeEvalResult key template resultType) = False"
| "plain_merge (CallMergeDefaultWithEval vs) = False"
| "plain_merge (CallMergeStruct fs) = False"
| "plain_merge (CallSetEvalConstants cs) = False"

fun parses :: "('e, 'v) Engine \<Rightarrow> ('e, 'v) builder_call \<Rightarrow> bool" where
  "parses E (CallMergeJSONObject raw) =
     (length raw = 0 \<or> (case UnmarshalObject E raw of Inl err \<Rightarrow> False | Inr out \<Rightarrow> True))"
| "parses E (CallMergeMap m) = True"
| "parses E (CallMergeEvalResult key template resultType) = True"
| "parses E (CallMergeDefaultWithEval vs) = True"
| "parses E (CallMergeStruct fs) = True"
| "parses E (CallSetEvalConstants cs) = True"

text \<open>\<open>declared calls k\<close>: the value the constants declared in a chain give the key
  \<open>k\<close>, that of the last \<open>SetEvalConstants\<close> call that declares \<open>k\<close>.
  \<open>stores_under E c k\<close>: the call \<open>c\<close> can store a value under the key \<open>k\<close> of the context.\<close>

fun declares :: "('e, 'v) builder_call \<Rightarrow> (string \<rightharpoonup> 'v)" where
  "declares (CallSetEvalConstants cs) = cs"
| "declares (CallMergeMap m) = Map.empty"
| "declares (CallMergeJSONObject raw) = Map.empty"
| "declares (CallMergeEvalResult key template resultType) = Map.empty"
| "declares (CallMergeDefaultWithEval vs) = Map.empty"
| "declares (CallMergeStruct fs) = Map.empty"

fun declared :: "('e, 'v) builder_call list \<Rightarrow> string \<Rightarrow> 'v option" where
  "declared [] k = None"
| "declared (c # calls) k =
     (case declared calls k of Some v \<Rightarrow> Some v | None \<Rightarrow> declares c k)"

fun stores_under :: "('e, 'v) Engine \<Rightarrow> ('e, 'v) builder_call \<Rightarrow> string \<Rightarrow> bool" where
  "stores_under E (CallMergeMap m) k = (m k \<noteq> None)"
| "stores_under E (CallMergeJSONObject raw) k = (supplied E (CallMergeJSONObject raw) k \<noteq> None)"
| "stores_under E (CallMergeEvalResult key template resultType) k = (key = k)"
| "stores_under E (CallMergeDefaultWithEval vs) k = (k \<in> set (map Name vs))"
| "stores_under E (CallMergeStruct fs) k =
     (k \<in> set (map (\<lambda>f. case json_name f of Some n \<Rightarrow> n | None \<Rightarrow> field_name f) fs))"
| "stores_under E (CallSetEvalConstants cs) k = False"

section \<open>Properties: encryption and the store\<close>



text \<open>The quoting of an id with a line feed, a control character and a double quote.\<close>

lemma quote_control_characters:
  "quote [CHR ''a'', CHR 0x0A, CHR 0x01, CHR 0x22, CHR ''b'']
     = [CHR 0x22, CHR ''a'', CHR 0x5C, CHR ''n'', CHR 0x5C, CHR ''x'', CHR ''0'', CHR ''1'',
        CHR 0x5C, CHR 0x22, CHR ''b'', CHR 0x22]"
  by (simp add: quote_def quoteByte_def lowerhex_def)

lemma Sprintf_not_found:
  "Sprintf ''could not find terraform deployment: %s'' [a] = ''could not find terraform deployment: '' @ a"
  by simp

lemma Sprintf_decryption:
  "Sprintf ''decryption error: %w'' [a] = ''decryption error: '' @ a"
  by simp

lemma Sprintf_decoding:
  "Sprintf ''error decoding workspace %q: %w'' [a, b] = ''error decoding workspace '' @ quote a @ '': '' @ b"
  by simp

text \<open>
  C6. \<open>GetTerraformDeployment\<close> on an id whose stored blob fails decryption returns the
  decoding error, which wraps the decryption cause, and on an absent id returns the
  not-found error; the two errors differ, and so do their messages, whatever the ids and
  the cause are.
\<close>

theorem GetTerraformDeployment_errors_distinct:
  assumes "db s i = Some row"
      and "Decrypt (encryptor s) (model_Workspace row) = Inl cause"
      and "db s j = None"
  shows "\<exists>decodingError notFoundError.
           GetTerraformDeployment Deserialize s i = Inl decodingError
         \<and> decodingError = Errorf ''error decoding workspace %q: %w''
               [ArgString i, ArgError (Errorf ''decryption error: %w'' [ArgError cause])]
         \<and> GetTerraformDeployment Deserialize s j = Inl notFoundError
         \<and> notFoundError = Errorf ''could not find terraform deployment: %s'' [ArgString j]
         \<and> decodingError \<noteq> notFoundError
         \<and> Error decodingError = ''error decoding workspace '' @ quote i @ '': decryption error: '' @ Error cause
         \<and> Error notFoundError = ''could not find terraform deployment: '' @ j
         \<and> Error decodingError \<noteq> Error notFoundError"
  using assms
  by (simp add: GetTerraformDeployment_def decodeBytes_def
        Sprintf_not_found Sprintf_decoding Sprintf_decryption)

theorem GetTerraformDeployment_errors_distinct_witness:
  "\<exists>decodingError notFoundError.
     GetTerraformDeployment rejectingDeserialize (fakeStorage failingDecryptor) ''fake-id-1'' = Inl decodingError
   \<and> Error decodingError = ''error decoding workspace '' @ [CHR 0x22] @ ''fake-id-1'' @ [CHR 0x22] @ '': decryption error: bang''
   \<and> GetTerraformDeployment rejectingDeserialize (fakeStorage failingDecryptor) ''not-there'' = Inl notFoundError
   \<and> Error notFoundError = ''could not find terraform deployment: not-there''
   \<and> decodingError \<noteq> notFoundError"
proof -
  have row: "db (fakeStorage failingDecryptor) ''fake-id-1''
      = Some \<lparr> model_ID = ''fake-id-1'', model_Workspace = ''{}'',
                 model_LastOperationType = ''create'', model_LastOperationState = ''succeeded'',
                 model_LastOperationMessage = ''amazing'' \<rparr>"
    by (simp add: fakeStorage_def fakeTerraformDeployments_def)
  have dec: "Decrypt (encryptor (fakeStorage failingDecryptor))
               (model_Workspace \<lparr> model_ID = ''fake-id-1'', model_Workspace = ''{}'',
                 model_LastOperationType = ''create'', model_LastOperationState = ''succeeded'',
                 model_LastOperationMessage = ''amazing'' \<rparr>) = Inl (New ''bang'')"
    by (simp add: fakeStorage_def failingDecryptor_def)
  have absent: "db (fakeStorage failingDecryptor) ''not-there'' = None"
    by (simp add: fakeStorage_def fakeTerraformDeployments_def)
  from GetTerraformDeployment_errors_distinct [OF row dec absent, of rejectingDeserialize]
  show ?thesis by (auto simp add: quote_def quoteByte_def)
qed

text \<open>
  When the decryption of a blob yields the empty byte sequence, \<open>decodeJSON\<close> returns no
  error and leaves the receiver as it was given, whatever the receiver is, without parsing.
\<close>

lemma decodeJSON_empty_blob:
  assumes "Decrypt (encryptor s) a = Inr []"
  shows "decodeJSON Unmarshal s a receiver = (None, receiver)"
  using assms
  by (simp add: decodeJSON_def decodeBytes_def)

lemma decodeJSON_empty_blob_example:
  "decodeJSON rejectingUnmarshal (fakeStorage NoopEncryptor) [] (42::nat) = (None, 42)"
  by (rule decodeJSON_empty_blob) (simp add: fakeStorage_def NoopEncryptor_def)

section \<open>Properties: the upgrade checker\<close>

lemma Compare_flip: "Compare a b = - Compare b a"
  by (induction a b rule: Compare.induct) auto

text \<open>
  C1, as the code has it. When the deployment is found and its state version \<open>v\<close> can be
  read, the check before deprovisioning fails exactly when \<open>v\<close> is strictly lower than the
  configured default version (the configured version is the greater one), and succeeds
  whenever \<open>v\<close> is equal to or greater than the configured version.
\<close>

theorem CheckUpgradeAvailable_fails_iff_state_older:
  assumes "provider_GetTerraformDeployment provider g = Inr d"
      and "StateVersion provider (TFWorkspace provider d) = Inr v"
  shows "(CheckUpgradeAvailable provider g \<noteq> None \<longleftrightarrow> LessThan v (DefaultTfVersion provider))
       \<and> (checkTerraformVersion provider (TFWorkspace provider d) \<noteq> None \<longleftrightarrow> LessThan v (DefaultTfVersion provider))
       \<and> (LessThan v (DefaultTfVersion provider) \<longleftrightarrow> GreaterThan (DefaultTfVersion provider) v)
       \<and> (Compare v (DefaultTfVersion provider) \<ge> 0 \<longrightarrow> CheckUpgradeAvailable provider g = None)"
  using assms Compare_flip [of v "DefaultTfVersion provider"]
  by (auto simp add: CheckUpgradeAvailable_def checkTerraformVersion_def LessThan_def GreaterThan_def
           split: option.splits)

theorem CheckUpgradeAvailable_fails_iff_state_older_witness:
  "provider_GetTerraformDeployment (exampleProvider [0, 13, 7] [1, 0, 0]) ''tf:instance:'' = Inr [0, 13, 7]
   \<and> LessThan [0, 13, 7] [1, 0, 0]
   \<and> CheckUpgradeAvailable (exampleProvider [0, 13, 7] [1, 0, 0]) ''tf:instance:'' \<noteq> None
   \<and> Compare [1, 0, 0] [1, 0] \<ge> 0
   \<and> CheckUpgradeAvailable (exampleProvider [1, 0, 0] [1, 0]) ''tf:instance:'' = None"
proof -
  have g: "provider_GetTerraformDeployment (exampleProvider [0, 13, 7] [1, 0, 0]) ''tf:instance:'' = Inr [0, 13, 7]"
    by (simp add: exampleProvider_def)
  have v: "StateVersion (exampleProvider [0, 13, 7] [1, 0, 0])
             (TFWorkspace (exampleProvider [0, 13, 7] [1, 0, 0]) [0, 13, 7]) = Inr [0, 13, 7]"
    by (simp add: exampleProvider_def)
  have g': "provider_GetTerraformDeployment (exampleProvider [1, 0, 0] [1, 0]) ''tf:instance:'' = Inr [1, 0, 0]"
    by (simp add: exampleProvider_def)
  have v': "StateVersion (exampleProvider [1, 0, 0] [1, 0])
             (TFWorkspace (exampleProvider [1, 0, 0] [1, 0]) [1, 0, 0]) = Inr [1, 0, 0]"
    by (simp add: exampleProvider_def)
  have lt: "LessThan [0, 13, 7] [1, 0, 0]" and ge: "Compare [1, 0, 0] [1, 0] \<ge> 0"
    by (simp_all add: LessThan_def)
  from CheckUpgradeAvailable_fails_iff_state_older [OF g v]
       CheckUpgradeAvailable_fails_iff_state_older [OF g' v'] g lt ge
  show ?thesis by (simp add: exampleProvider_def)
qed

text \<open>
  C1, as the claim states it, fails: with the recorded state at 1.1.0, strictly greater
  than the configured 1.0.0, the check succeeds; with the recorded state at 0.13.7, lower
  than the configured 1.0.0, it fails.
\<close>

theorem CheckUpgradeAvailable_newer_state_counterexample:
  "GreaterThan [1, 1, 0] [1, 0, 0]
   \<and> checkTerraformVersion (exampleProvider [1, 1, 0] [1, 0, 0]) [1, 1, 0] = None
   \<and> CheckUpgradeAvailable (exampleProvider [1, 1, 0] [1, 0, 0]) ''tf:instance:'' = None
   \<and> \<not> GreaterThan [0, 13, 7] [1, 0, 0]
   \<and> checkTerraformVersion (exampleProvider [0, 13, 7] [1, 0, 0]) [0, 13, 7] \<noteq> None
   \<and> CheckUpgradeAvailable (exampleProvider [0, 13, 7] [1, 0, 0]) ''tf:instance:'' \<noteq> None"
  by (simp add: CheckUpgradeAvailable_def checkTerraformVersion_def LessThan_def GreaterThan_def
        exampleProvider_def)

section \<open>Properties: the invoker\<close>

lemma foldl_append_imports:
  "foldl (\<lambda>commands (resource, id'). commands @ [NewImport resource id']) acc resources
   = acc @ map (\<lambda>(resource, id'). NewImport resource id') resources"
  by (induction resources arbitrary: acc) auto

text \<open>
  C8. On every workspace, \<open>Apply\<close>, \<open>Show\<close>, \<open>Destroy\<close> and \<open>Plan\<close> of the 0.12 invoker
  each make one call of the workspace's \<open>Execute\<close>, with exactly the two commands
  \<open>Init(pluginDirectory)\<close> and the action, in that order; \<open>Import\<close> makes one call with
  \<open>Init(pluginDirectory)\<close> followed by one \<open>Import(addr, id)\<close> per supplied pair; nothing else
  is issued.
\<close>

theorem Terraform012Invoker_command_sequences:
  "ExecuteCalls (snd (Apply FakeExecute cmd ws))
     = ExecuteCalls ws @ [(executor cmd, [NewInit012 (pluginDirectory cmd), NewApply])]
   \<and> ExecuteCalls (snd (Show FakeExecute cmd ws))
     = ExecuteCalls ws @ [(executor cmd, [NewInit012 (pluginDirectory cmd), NewShow])]
   \<and> ExecuteCalls (snd (Destroy FakeExecute cmd ws))
     = ExecuteCalls ws @ [(executor cmd, [NewInit012 (pluginDirectory cmd), NewDestroy])]
   \<and> ExecuteCalls (snd (Plan FakeExecute cmd ws))
     = ExecuteCalls ws @ [(executor cmd, [NewInit012 (pluginDirectory cmd), NewPlan])]
   \<and> ExecuteCalls (snd (Import FakeExecute cmd ws resources))
     = ExecuteCalls ws @ [(executor cmd, NewInit012 (pluginDirectory cmd)
                                           # map (\<lambda>(addr, id'). NewImport addr id') resources)]"
  by (simp add: Apply_def Show_def Destroy_def Plan_def Import_def FakeExecute_def
        foldl_append_imports split: prod.splits)

text \<open>With the workspace's \<open>Execute\<close> as the spec describes it, the commands run stop at
  the first failure: \<open>Apply\<close> runs both commands when \<open>Init\<close> succeeds, and \<open>Init\<close> alone when
  it fails.\<close>

lemma Apply_runs_init_then_apply:
  assumes "executor cmd (NewInit012 (pluginDirectory cmd)) = (out, None)"
  shows "Apply Execute cmd ws
       = (snd (executor cmd NewApply), ws @ [NewInit012 (pluginDirectory cmd), NewApply])"
  using assms
  by (cases "executor cmd NewApply")
     (auto simp add: Apply_def Execute_def split: prod.splits option.splits)

lemma Apply_stops_when_init_fails:
  assumes "executor cmd (NewInit012 (pluginDirectory cmd)) = (out, Some err)"
  shows "Apply Execute cmd ws = (Some err, ws @ [NewInit012 (pluginDirectory cmd)])"
  using assms
  by (simp add: Apply_def Execute_def)

section \<open>Properties: deprovision\<close>

text \<open>
  C4. For every instance id, details and store, \<open>Deprovision\<close> called with
  \<open>clientSupportsAsync = False\<close> returns \<open>ErrAsyncRequired\<close>, whether the instance exists or
  not, and leaves the store untouched: no call is added to its journal.
\<close>

theorem Deprovision_requires_async:
  "Deprovision broker ctx instanceID details False s
     = ((\<lparr> IsAsync = False, OperationData = [] \<rparr>, Some ErrAsyncRequired), s)
   \<and> journal (snd (Deprovision broker ctx instanceID details False s)) = journal s"
  by (simp add: Deprovision_def)

lemma Deprovision_reaches_provider:
  assumes "faults s (CallExistsServiceInstanceDetails i) = None"
      and "faults s (CallGetServiceInstanceDetails i) = None"
      and "faults s (CallGetProvisionRequestDetails i) = None"
      and "instances s i = Some row"
      and "requests s i = Some params"
      and "getDefinitionAndProvider broker (ServiceGUID row) = Inr (def, prov)"
      and "provider_CheckUpgradeAvailable broker prov (generateTFInstanceID broker i) = None"
      and "GetPlanByID broker def (PlanID details) = Inr plan"
      and "ProvisionVariables broker def i
             \<lparr> provision_ServiceID = ServiceID details, provision_PlanID = PlanID details,
               RequestParams = params \<rparr>
             plan (DecodeOriginatingIdentityHeader broker ctx) = Inr vars"
      and "provider_Deprovision broker prov ctx i details vars = Inr operationID"
  shows "Deprovision broker ctx i details True s
       = finishDeprovision i (row\<lparr>GUID := i\<rparr>) operationID
           (s\<lparr>journal := journal s @ [CallExistsServiceInstanceDetails i,
                                       CallGetServiceInstanceDetails i,
                                       CallGetProvisionRequestDetails i]\<rparr>)"
  using assms
  by (simp add: Deprovision_def ExistsServiceInstanceDetails_def GetServiceInstanceDetails_def
        GetProvisionRequestDetails_def record_call_def)

lemma finishDeprovision_sync:
  assumes "faults s (CallDeleteServiceInstanceDetails i) = None"
      and "faults s (CallDeleteProvisionRequestDetails i) = None"
  shows "finishDeprovision i inst None s
       = ((\<lparr> IsAsync = False, OperationData = [] \<rparr>, None),
          s\<lparr>instances := (instances s)(i := None), requests := (requests s)(i := None),
            journal := journal s @ [CallDeleteServiceInstanceDetails i,
                                    CallDeleteProvisionRequestDetails i]\<rparr>)"
  using assms
  by (simp add: finishDeprovision_def DeleteServiceInstanceDetails_def
        DeleteProvisionRequestDetails_def record_call_def)

lemma finishDeprovision_sync_second_delete_fails:
  assumes "faults s (CallDeleteServiceInstanceDetails i) = None"
      and "faults s (CallDeleteProvisionRequestDetails i) = Some err"
  shows "finishDeprovision i inst None s
       = ((\<lparr> IsAsync = False, OperationData = [] \<rparr>,
           Some (Errorf ''error deleting provision request details from the database: %w'' [ArgError err])),
          s\<lparr>instances := (instances s)(i := None),
            journal := journal s @ [CallDeleteServiceInstanceDetails i,
                                    CallDeleteProvisionRequestDetails i]\<rparr>)"
  using assms
  by (simp add: finishDeprovision_def DeleteServiceInstanceDetails_def
        DeleteProvisionRequestDetails_def record_call_def)

lemma finishDeprovision_async:
  assumes "faults s (CallStoreServiceInstanceDetails
             (inst\<lparr>OperationType := DeprovisionOperationType, OperationGUID := opID\<rparr>)) = None"
  shows "finishDeprovision i inst (Some opID) s
       = ((\<lparr> IsAsync = True, OperationData = opID \<rparr>, None),
          s\<lparr>instances := (instances s)(GUID inst \<mapsto>
                 inst\<lparr>OperationType := DeprovisionOperationType, OperationGUID := opID\<rparr>),
            journal := journal s @ [CallStoreServiceInstanceDetails
                 (inst\<lparr>OperationType := DeprovisionOperationType, OperationGUID := opID\<rparr>)]\<rparr>)"
  using assms
  by (simp add: finishDeprovision_def StoreServiceInstanceDetails_def record_call_def Let_def)

text \<open>
  C5. When the store does not fail and the request reaches the service provider: if the
  provider's \<open>Deprovision\<close> returns a nil operation id, the broker's \<open>Deprovision\<close> deletes
  the instance row and the cached provision request parameters and returns success; if it
  returns an operation id, the broker marks the instance row with the deprovision operation
  type and that id, stores it, returns the asynchronous response, and deletes nothing.
\<close>

theorem Deprovision_sync_deletes_async_marks:
  assumes "faults s = noFaults"
      and "instances s i = Some row"
      and "requests s i = Some params"
      and "getDefinitionAndProvider broker (ServiceGUID row) = Inr (def, prov)"
      and "provider_CheckUpgradeAvailable broker prov (generateTFInstanceID broker i) = None"
      and "GetPlanByID broker def (PlanID details) = Inr plan"
      and "ProvisionVariables broker def i
             \<lparr> provision_ServiceID = ServiceID details, provision_PlanID = PlanID details,
               RequestParams = params \<rparr>
             plan (DecodeOriginatingIdentityHeader broker ctx) = Inr vars"
      and "provider_Deprovision broker prov ctx i details vars = Inr operationID"
  shows "Deprovision broker ctx i details True s =
          (case operationID of
             None \<Rightarrow>
               ((\<lparr> IsAsync = False, OperationData = [] \<rparr>, None),
                s\<lparr>instances := (instances s)(i := None),
                  requests := (requests s)(i := None),
                  journal := journal s @ [CallExistsServiceInstanceDetails i,
                                          CallGetServiceInstanceDetails i,
                                          CallGetProvisionRequestDetails i,
                                          CallDeleteServiceInstanceDetails i,
                                          CallDeleteProvisionRequestDetails i]\<rparr>)
           | Some opID \<Rightarrow>
               ((\<lparr> IsAsync = True, OperationData = opID \<rparr>, None),
                s\<lparr>instances := (instances s)(i \<mapsto>
                       row\<lparr>GUID := i, OperationType := DeprovisionOperationType, OperationGUID := opID\<rparr>),
                  journal := journal s @ [CallExistsServiceInstanceDetails i,
                                          CallGetServiceInstanceDetails i,
                                          CallGetProvisionRequestDetails i,
                                          CallStoreServiceInstanceDetails
                                            (row\<lparr>GUID := i, OperationType := DeprovisionOperationType,
                                                 OperationGUID := opID\<rparr>)]\<rparr>))"
proof -
  have f: "faults s c = None" for c
    using assms(1) by (simp add: noFaults_def)
  have reach: "Deprovision broker ctx i details True s
       = finishDeprovision i (row\<lparr>GUID := i\<rparr>) operationID
           (s\<lparr>journal := journal s @ [CallExistsServiceInstanceDetails i,
                                       CallGetServiceInstanceDetails i,
                                       CallGetProvisionRequestDetails i]\<rparr>)"
    by (rule Deprovision_reaches_provider [OF f f f assms(2-8)])
  show ?thesis
  proof (cases operationID)
    case None
    then show ?thesis
      by (simp add: reach finishDeprovision_sync f)
  next
    case (Some opID)
    then show ?thesis
      by (simp add: reach finishDeprovision_async f)
  qed
qed

theorem Deprovision_sync_deletes_async_marks_witness:
  "Deprovision (exampleBroker None) () ''instance-1'' exampleDetails True (exampleStore noFaults)
     = ((\<lparr> IsAsync = False, OperationData = [] \<rparr>, None),
        \<lparr> instances = Map.empty, requests = Map.empty, faults = noFaults,
          journal = [CallExistsServiceInstanceDetails ''instance-1'',
                     CallGetServiceInstanceDetails ''instance-1'',
                     CallGetProvisionRequestDetails ''instance-1'',
                     CallDeleteServiceInstanceDetails ''instance-1'',
                     CallDeleteProvisionRequestDetails ''instance-1''] \<rparr>)
   \<and> fst (Deprovision (exampleBroker (Some ''op-1'')) () ''instance-1'' exampleDetails True (exampleStore noFaults))
     = (\<lparr> IsAsync = True, OperationData = ''op-1'' \<rparr>, None)
   \<and> instances (snd (Deprovision (exampleBroker (Some ''op-1'')) () ''instance-1'' exampleDetails True
                        (exampleStore noFaults))) ''instance-1''
     = Some \<lparr> GUID = ''instance-1'', ServiceGUID = ''service-1'', PlanGUID = ''plan-1'',
              OperationType = ''deprovision'', OperationGUID = ''op-1'' \<rparr>
   \<and> requests (snd (Deprovision (exampleBroker (Some ''op-1'')) () ''instance-1'' exampleDetails True
                        (exampleStore noFaults))) ''instance-1''
     = Some ''{}''"
proof -
  have sync: "Deprovision (exampleBroker None) () ''instance-1'' exampleDetails True (exampleStore noFaults) =
      (case None :: string option of
         None \<Rightarrow>
           ((\<lparr> IsAsync = False, OperationData = [] \<rparr>, None),
            (exampleStore noFaults)\<lparr>instances := (instances (exampleStore noFaults))(''instance-1'' := None),
              requests := (requests (exampleStore noFaults))(''instance-1'' := None),
              journal := journal (exampleStore noFaults) @ [CallExistsServiceInstanceDetails ''instance-1'',
                                      CallGetServiceInstanceDetails ''instance-1'',
                                      CallGetProvisionRequestDetails ''instance-1'',
                                      CallDeleteServiceInstanceDetails ''instance-1'',
                                      CallDeleteProvisionRequestDetails ''instance-1'']\<rparr>)
       | Some opID \<Rightarrow>
           ((\<lparr> IsAsync = True, OperationData = opID \<rparr>, None),
            (exampleStore noFaults)\<lparr>instances := (instances (exampleStore noFaults))(''instance-1'' \<mapsto>
                   exampleInstance\<lparr>GUID := ''instance-1'', OperationType := DeprovisionOperationType, OperationGUID := opID\<rparr>),
              journal := journal (exampleStore noFaults) @ [CallExistsServiceInstanceDetails ''instance-1'',
                                      CallGetServiceInstanceDetails ''instance-1'',
                                      CallGetProvisionRequestDetails ''instance-1'',
                                      CallStoreServiceInstanceDetails
                                        (exampleInstance\<lparr>GUID := ''instance-1'', OperationType := DeprovisionOperationType,
                                             OperationGUID := opID\<rparr>)]\<rparr>))"
    by (rule Deprovision_sync_deletes_async_marks [where def = "()" and prov = "()" and plan = "()" and vars = "()" and params = "''{}''"])
       (simp_all add: exampleBroker_def exampleStore_def)
  have async: "Deprovision (exampleBroker (Some ''op-1'')) () ''instance-1'' exampleDetails True (exampleStore noFaults) =
      (case Some ''op-1'' of
         None \<Rightarrow>
           ((\<lparr> IsAsync = False, OperationData = [] \<rparr>, None),
            (exampleStore noFaults)\<lparr>instances := (instances (exampleStore noFaults))(''instance-1'' := None),
              requests := (requests (exampleStore noFaults))(''instance-1'' := None),
              journal := journal (exampleStore noFaults) @ [CallExistsServiceInstanceDetails ''instance-1'',
                                      CallGetServiceInstanceDetails ''instance-1'',
                                      CallGetProvisionRequestDetails ''instance-1'',
                                      CallDeleteServiceInstanceDetails ''instance-1'',
                                      CallDeleteProvisionRequestDetails ''instance-1'']\<rparr>)
       | Some opID \<Rightarrow>
           ((\<lparr> IsAsync = True, OperationData = opID \<rparr>, None),
            (exampleStore noFaults)\<lparr>instances := (instances (exampleStore noFaults))(''instance-1'' \<mapsto>
                   exampleInstance\<lparr>GUID := ''instance-1'', OperationType := DeprovisionOperationType, OperationGUID := opID\<rparr>),
              journal := journal (exampleStore noFaults) @ [CallExistsServiceInstanceDetails ''instance-1'',
                                      CallGetServiceInstanceDetails ''instance-1'',
                                      CallGetProvisionRequestDetails ''instance-1'',
                                      CallStoreServiceInstanceDetails
                                        (exampleInstance\<lparr>GUID := ''instance-1'', OperationType := DeprovisionOperationType,
                                             OperationGUID := opID\<rparr>)]\<rparr>))"
    by (rule Deprovision_sync_deletes_async_marks [where def = "()" and prov = "()" and plan = "()" and vars = "()" and params = "''{}''"])
       (simp_all add: exampleBroker_def exampleStore_def)
  show ?thesis
    unfolding sync async
    by (simp add: exampleStore_def exampleInstance_def DeprovisionOperationType_def)
qed

text \<open>
  C9. On synchronous deprovision the two deletions are two store calls, not one
  transaction: when the deletion of the instance details succeeds and the deletion of the
  provision request details fails, \<open>Deprovision\<close> returns the error of the second while the
  instance row is already gone and the provision request row is still there.
\<close>

theorem Deprovision_sync_partial_delete:
  assumes "faults s (CallExistsServiceInstanceDetails i) = None"
      and "faults s (CallGetServiceInstanceDetails i) = None"
      and "faults s (CallGetProvisionRequestDetails i) = None"
      and "instances s i = Some row"
      and "requests s i = Some params"
      and "getDefinitionAndProvider broker (ServiceGUID row) = Inr (def, prov)"
      and "provider_CheckUpgradeAvailable broker prov (generateTFInstanceID broker i) = None"
      and "GetPlanByID broker def (PlanID details) = Inr plan"
      and "ProvisionVariables broker def i
             \<lparr> provision_ServiceID = ServiceID details, provision_PlanID = PlanID details,
               RequestParams = params \<rparr>
             plan (DecodeOriginatingIdentityHeader broker ctx) = Inr vars"
      and "provider_Deprovision broker prov ctx i details vars = Inr None"
      and "faults s (CallDeleteServiceInstanceDetails i) = None"
      and "faults s (CallDeleteProvisionRequestDetails i) = Some err"
  shows "fst (Deprovision broker ctx i details True s)
           = (\<lparr> IsAsync = False, OperationData = [] \<rparr>,
              Some (Errorf ''error deleting provision request details from the database: %w'' [ArgError err]))
       \<and> instances (snd (Deprovision broker ctx i details True s)) i = None
       \<and> requests (snd (Deprovision broker ctx i details True s)) i = Some params
       \<and> journal (snd (Deprovision broker ctx i details True s))
           = journal s @ [CallExistsServiceInstanceDetails i,
                          CallGetServiceInstanceDetails i,
                          CallGetProvisionRequestDetails i,
                          CallDeleteServiceInstanceDetails i,
                          CallDeleteProvisionRequestDetails i]"
proof -
  have reach: "Deprovision broker ctx i details True s
       = finishDeprovision i (row\<lparr>GUID := i\<rparr>) None
           (s\<lparr>journal := journal s @ [CallExistsServiceInstanceDetails i,
                                       CallGetServiceInstanceDetails i,
                                       CallGetProvisionRequestDetails i]\<rparr>)"
    by (rule Deprovision_reaches_provider [OF assms(1-10)])
  show ?thesis
    by (simp add: reach finishDeprovision_sync_second_delete_fails assms(5,11,12))
qed

theorem Deprovision_sync_partial_delete_witness:
  "fst (Deprovision (exampleBroker None) () ''instance-1'' exampleDetails True
          (exampleStore (failOn (CallDeleteProvisionRequestDetails ''instance-1'') (New ''database is locked''))))
     = (\<lparr> IsAsync = False, OperationData = [] \<rparr>,
        Some (Errorf ''error deleting provision request details from the database: %w''
                [ArgError (New ''database is locked'')]))
   \<and> instances (snd (Deprovision (exampleBroker None) () ''instance-1'' exampleDetails True
          (exampleStore (failOn (CallDeleteProvisionRequestDetails ''instance-1'') (New ''database is locked'')))))
        ''instance-1'' = None
   \<and> requests (snd (Deprovision (exampleBroker None) () ''instance-1'' exampleDetails True
          (exampleStore (failOn (CallDeleteProvisionRequestDetails ''instance-1'') (New ''database is locked'')))))
        ''instance-1'' = Some ''{}''"
  using Deprovision_sync_partial_delete
    [where s = "exampleStore (failOn (CallDeleteProvisionRequestDetails ''instance-1'') (New ''database is locked''))"
       and i = "''instance-1''" and row = exampleInstance and params = "''{}''"
       and broker = "exampleBroker None" and ctx = "()" and details = exampleDetails
       and def = "()" and prov = "()" and plan = "()" and vars = "()"
       and err = "New ''database is locked''"]
  by (simp add: exampleBroker_def exampleStore_def failOn_def)

section \<open>Properties: the variable context builder\<close>

lemma chain_Nil [simp]: "chain E [] b = b"
  by (simp add: chain_def)

lemma chain_Cons [simp]: "chain E (c # calls) b = chain E calls (call E c b)"
  by (simp add: chain_def)

lemma chain_append: "chain E (xs @ ys) b = chain E ys (chain E xs b)"
  by (simp add: chain_def)

lemma MergeDefault_failed: "errors b \<noteq> None \<Longrightarrow> MergeDefault E v b = b"
  by (simp add: MergeDefault_def)

lemma MergeDefaultWithEval_failed: "errors b \<noteq> None \<Longrightarrow> MergeDefaultWithEval E vs b = b"
  unfolding MergeDefaultWithEval_def
  by (induction vs) (simp_all add: MergeDefault_failed)

lemma call_failed: "errors b \<noteq> None \<Longrightarrow> call E c b = b"
  by (cases c)
     (simp_all add: MergeMap_def MergeJSONObject_def MergeEvalResult_def MergeDefaultWithEval_failed
        MergeStruct_def SetEvalConstants_def)

lemma chain_failed: "errors b \<noteq> None \<Longrightarrow> chain E calls b = b"
  by (induction calls) (simp_all add: call_failed)

lemma chain_ok_start: "errors (chain E calls b) = None \<Longrightarrow> errors b = None"
  using chain_failed [of b E calls] by (cases "errors b") auto

lemma chain_plain_merges:
  "errors b = None \<Longrightarrow> list_all plain_merge calls \<Longrightarrow> list_all (parses E) calls \<Longrightarrow>
   chain E calls b
     = b\<lparr>context := (\<lambda>k. case lastWrite E calls k of Some v \<Rightarrow> Some v | None \<Rightarrow> context b k)\<rparr>"
proof (induction calls arbitrary: b)
  case Nil
  then show ?case by simp
next
  case (Cons c calls)
  have step: "call E c b = b\<lparr>context := context b ++ supplied E c\<rparr>"
    using Cons.prems
    by (cases c) (auto simp add: MergeMap_def MergeJSONObject_def split: sum.splits)
  have "chain E (c # calls) b = chain E calls (b\<lparr>context := context b ++ supplied E c\<rparr>)"
    by (simp add: step)
  also have "\<dots> = (b\<lparr>context := context b ++ supplied E c\<rparr>)
      \<lparr>context := (\<lambda>k. case lastWrite E calls k of Some v \<Rightarrow> Some v
                         | None \<Rightarrow> context (b\<lparr>context := context b ++ supplied E c\<rparr>) k)\<rparr>"
    using Cons.prems by (intro Cons.IH) simp_all
  also have "\<dots> = b\<lparr>context := (\<lambda>k. case lastWrite E (c # calls) k of Some v \<Rightarrow> Some v
                                      | None \<Rightarrow> context b k)\<rparr>"
    by (auto simp add: map_add_def fun_eq_iff split: option.splits)
  finally show ?case .
qed

lemma chain_plain_rejected:
  "errors b = None \<Longrightarrow> list_all plain_merge calls \<Longrightarrow> \<not> list_all (parses E) calls \<Longrightarrow>
   errors (chain E calls b) \<noteq> None"
proof (induction calls arbitrary: b)
  case Nil
  then show ?case by simp
next
  case (Cons c calls)
  show ?case
  proof (cases "parses E c")
    case True
    then have "call E c b = b\<lparr>context := context b ++ supplied E c\<rparr>"
      using Cons.prems
      by (cases c) (auto simp add: MergeMap_def MergeJSONObject_def split: sum.splits)
    then show ?thesis
      using Cons.prems True Cons.IH [of "b\<lparr>context := context b ++ supplied E c\<rparr>"] by simp
  next
    case False
    then have "errors (call E c b) \<noteq> None"
      using Cons.prems
      by (cases c) (auto simp add: MergeJSONObject_def split: sum.splits)
    then show ?thesis
      by (simp add: chain_failed)
  qed
qed

text \<open>
  C3. For any chain of \<open>MergeMap\<close> and \<open>MergeJSONObject\<close> calls on a fresh builder, the value
  of each key in the built context is the value supplied by the last call of the chain
  that set that key, a nested value being taken whole; the context is built exactly when
  every JSON message parses.
\<close>

theorem plain_merges_last_write_wins:
  assumes "list_all plain_merge calls"
  shows "(Build (chain E calls Builder) = Inr ctx \<longrightarrow> ctx k = lastWrite E calls k)
       \<and> (list_all (parses E) calls \<longrightarrow> Build (chain E calls Builder) = Inr (lastWrite E calls))
       \<and> (\<not> list_all (parses E) calls \<longrightarrow> (\<exists>err. Build (chain E calls Builder) = Inl err))"
proof -
  have fresh: "errors Builder = None"
    by (simp add: Builder_def)
  have ok: "Build (chain E calls Builder) = Inr (lastWrite E calls)" if "list_all (parses E) calls"
  proof -
    have "(\<lambda>k. case lastWrite E calls k of Some v \<Rightarrow> Some v | None \<Rightarrow> context Builder k)
            = lastWrite E calls"
      by (auto simp add: fun_eq_iff Builder_def split: option.splits)
    then have "chain E calls Builder = Builder\<lparr>context := lastWrite E calls\<rparr>"
      using chain_plain_merges [OF fresh assms that] by simp
    then show ?thesis
      by (simp add: Build_def Builder_def)
  qed
  have bad: "\<exists>err. Build (chain E calls Builder) = Inl err" if "\<not> list_all (parses E) calls"
    using chain_plain_rejected [OF fresh assms that] by (auto simp add: Build_def)
  have "ctx k = lastWrite E calls k" if "Build (chain E calls Builder) = Inr ctx"
  proof (cases "list_all (parses E) calls")
    case True
    then show ?thesis using ok that by simp
  next
    case False
    then show ?thesis using bad that by auto
  qed
  then show ?thesis using ok bad by blast
qed

theorem plain_merges_last_write_wins_witness:
  "list_all plain_merge exampleMerges
   \<and> list_all (parses testEngine) exampleMerges
   \<and> Build (chain testEngine exampleMerges Builder) = Inr (lastWrite testEngine exampleMerges)
   \<and> lastWrite testEngine exampleMerges ''a'' = Some (StringValue ''aaa'')
   \<and> lastWrite testEngine exampleMerges ''foo'' = Some (ObjectValue [(''bar'', StringValue ''quz'')])
   \<and> lastWrite testEngine exampleMerges ''baz'' = Some (StringValue ''quz'')
   \<and> lastWrite testEngine exampleMerges ''b'' = None"
proof -
  have plain: "list_all plain_merge exampleMerges"
    by (simp add: exampleMerges_def)
  have accepted: "list_all (parses testEngine) exampleMerges"
    by (simp add: exampleMerges_def testEngine_def)
  from plain_merges_last_write_wins [OF plain, of testEngine "lastWrite testEngine exampleMerges" "''a''"] accepted
  have "Build (chain testEngine exampleMerges Builder) = Inr (lastWrite testEngine exampleMerges)"
    by simp
  moreover have "lastWrite testEngine exampleMerges ''a'' = Some (StringValue ''aaa'')"
    by (simp add: exampleMerges_def testEngine_def)
  moreover have "lastWrite testEngine exampleMerges ''foo'' = Some (ObjectValue [(''bar'', StringValue ''quz'')])"
    by (simp add: exampleMerges_def testEngine_def)
  moreover have "lastWrite testEngine exampleMerges ''baz'' = Some (StringValue ''quz'')"
    by (simp add: exampleMerges_def testEngine_def)
  moreover have "lastWrite testEngine exampleMerges ''b'' = None"
    by (simp add: exampleMerges_def testEngine_def)
  ultimately show ?thesis
    using plain accepted by simp
qed

lemma call_ok_start: "errors (call E c b) = None \<Longrightarrow> errors b = None"
  using call_failed [of b E c] by (cases "errors b") auto

lemma MergeDefault_constants: "constants (MergeDefault E v b) = constants b"
  by (simp add: MergeDefault_def MergeEvalResult_def split: default_value.splits sum.splits)

lemma MergeDefaultWithEval_constants: "constants (MergeDefaultWithEval E vs b) = constants b"
  unfolding MergeDefaultWithEval_def
  by (induction vs arbitrary: b) (simp_all add: MergeDefault_constants)

lemma call_constants: "errors b = None \<Longrightarrow> constants (call E c b) = constants b ++ declares c"
  by (cases c)
     (simp_all add: MergeMap_def MergeJSONObject_def MergeEvalResult_def
        MergeDefaultWithEval_constants MergeStruct_def SetEvalConstants_def split: sum.splits)

lemma chain_constants:
  "errors (chain E calls b) = None \<Longrightarrow>
   constants (chain E calls b) k = (case declared calls k of Some v \<Rightarrow> Some v | None \<Rightarrow> constants b k)"
proof (induction calls arbitrary: b)
  case Nil
  then show ?case by simp
next
  case (Cons c calls)
  from Cons.prems have rest: "errors (chain E calls (call E c b)) = None"
    by simp
  then have "errors (call E c b) = None"
    by (rule chain_ok_start)
  then have "errors b = None"
    by (rule call_ok_start)
  then have step: "constants (call E c b) k = (constants b ++ declares c) k"
    by (simp add: call_constants)
  have "constants (chain E (c # calls) b) k
          = (case declared calls k of Some v \<Rightarrow> Some v | None \<Rightarrow> constants (call E c b) k)"
    using Cons.IH [OF rest] by simp
  then show ?case
    by (simp add: step map_add_def split: option.splits)
qed

lemma declared_append:
  "declared (xs @ ys) k = (case declared ys k of Some v \<Rightarrow> Some v | None \<Rightarrow> declared xs k)"
  by (induction xs) (simp_all split: option.splits)

lemma MergeDefault_context: "k \<noteq> Name v \<Longrightarrow> context (MergeDefault E v b) k = context b k"
  by (simp add: MergeDefault_def MergeEvalResult_def split: default_value.splits sum.splits)

lemma MergeDefaultWithEval_context:
  "k \<notin> set (map Name vs) \<Longrightarrow> context (MergeDefaultWithEval E vs b) k = context b k"
  unfolding MergeDefaultWithEval_def
  by (induction vs arbitrary: b) (simp_all add: MergeDefault_context)

lemma map_of_absent: "k \<notin> set (map fst kvs) \<Longrightarrow> map_of kvs k = None"
  by (simp add: map_of_eq_None_iff)

lemma call_context: "\<not> stores_under E c k \<Longrightarrow> context (call E c b) k = context b k"
proof (cases c)
  case (CallMergeStruct fs)
  assume "\<not> stores_under E c k"
  then have "k \<notin> set (map fst (rev (map (\<lambda>f. (case json_name f of Some n \<Rightarrow> n | None \<Rightarrow> field_name f, field_value f)) fs)))"
    using CallMergeStruct by (simp add: comp_def image_image)
  then have "map_of (rev (map (\<lambda>f. (case json_name f of Some n \<Rightarrow> n | None \<Rightarrow> field_name f, field_value f)) fs)) k = None"
    by (rule map_of_absent)
  then show ?thesis
    using CallMergeStruct by (simp add: MergeStruct_def MergeMap_def map_add_def)
qed (auto simp add: MergeMap_def MergeJSONObject_def MergeEvalResult_def MergeDefaultWithEval_context
       SetEvalConstants_def map_add_def split: sum.splits option.splits)

lemma chain_context:
  "list_all (\<lambda>c. \<not> stores_under E c k) calls \<Longrightarrow> context (chain E calls b) k = context b k"
  by (induction calls arbitrary: b) (simp_all add: call_context)

text \<open>
  C2, as the builder has it. Take any chain of calls on a fresh builder that runs without
  error and plain-merges the key \<open>k\<close> with \<open>MergeMap\<close>, \<open>k\<close> being a constant that
  \<open>SetEvalConstants\<close> declares with the value \<open>c\<close>; any further calls may stand before, between
  and after the two. Then an expression is evaluated against variables in which \<open>k\<close> has the
  constant's value: \<open>MergeEvalResult\<close> of an expression whose value is \<open>r\<close> whenever \<open>k\<close> is \<open>c\<close>
  stores the cast of \<open>r\<close>. And the plain-merged value is the one a lookup of \<open>k\<close> in the built
  context returns, as long as no call after that \<open>MergeMap\<close> stores under \<open>k\<close>.
\<close>

theorem constant_overlays_plain_merge:
  assumes "errors (chain E (pre @ CallMergeMap m # after) Builder) = None"
      and "declared (pre @ CallMergeMap m # after) k = Some c"
      and "m k = Some p"
  shows "(let b = chain E (pre @ CallMergeMap m # after) Builder in
          evaluationContext b k = Some c
          \<and> ((\<forall>vars. vars k = Some c \<longrightarrow> Eval E t vars = Inr r) \<and> castTo E r ty = Inr r'
               \<longrightarrow> MergeEvalResult E key t ty b = b\<lparr>context := (context b)(key \<mapsto> r')\<rparr>)
          \<and> (list_all (\<lambda>x. \<not> stores_under E x k) after
               \<longrightarrow> Build b = Inr (context b) \<and> context b k = Some p))"
proof -
  let ?b1 = "chain E pre Builder"
  let ?b2 = "MergeMap m ?b1"
  let ?b3 = "chain E after ?b2"
  have unfold: "chain E (pre @ CallMergeMap m # after) Builder = ?b3"
    by (simp add: chain_append)
  have ok: "errors ?b3 = None"
    using assms(1) by (simp add: unfold)
  have "constants ?b3 k = Some c"
    using chain_constants [OF assms(1), of k] assms(2) by (simp add: unfold)
  then have sees: "evaluationContext ?b3 k = Some c"
    by (simp add: evaluationContext_def map_add_def)
  have evaluates: "MergeEvalResult E key t ty ?b3 = ?b3\<lparr>context := (context ?b3)(key \<mapsto> r')\<rparr>"
    if "\<forall>vars. vars k = Some c \<longrightarrow> Eval E t vars = Inr r" and "castTo E r ty = Inr r'"
  proof -
    have "Eval E t (evaluationContext ?b3) = Inr r"
      using that(1) sees by blast
    then show ?thesis
      using ok that(2) by (simp add: MergeEvalResult_def)
  qed
  have plain: "Build ?b3 = Inr (context ?b3) \<and> context ?b3 k = Some p"
    if untouched: "list_all (\<lambda>x. \<not> stores_under E x k) after"
  proof -
    from ok have "errors ?b2 = None"
      by (rule chain_ok_start)
    then have "errors ?b1 = None"
      by (cases "errors ?b1") (simp_all add: MergeMap_def)
    then have "context ?b2 k = Some p"
      using assms(3) by (simp add: MergeMap_def map_add_def)
    then show ?thesis
      using chain_context [OF untouched, of ?b2] ok by (simp add: Build_def)
  qed
  show ?thesis
    unfolding unfold Let_def using sees evaluates plain by blast
qed

lemma constantScenario_run:
  "chain testEngine constantScenario Builder
     = \<lparr> context = [''PI'' \<mapsto> NumberValue ''3.2'', ''E'' \<mapsto> NumberValue ''3''],
         constants = [''PI'' \<mapsto> NumberValue ''3.14'', ''E'' \<mapsto> NumberValue ''2.72''],
         errors = None \<rparr>"
  by (simp add: constantScenario_def Builder_def SetEvalConstants_def MergeMap_def)

theorem constant_overlays_plain_merge_witness:
  "errors (chain testEngine constantScenario Builder) = None
   \<and> declared constantScenario ''PI'' = Some (NumberValue ''3.14'')
   \<and> evaluationContext (chain testEngine constantScenario Builder) ''PI'' = Some (NumberValue ''3.14'')
   \<and> MergeEvalResult testEngine ''out'' (Reference ''PI'') ''string'' (chain testEngine constantScenario Builder)
       = \<lparr> context = [''PI'' \<mapsto> NumberValue ''3.2'', ''E'' \<mapsto> NumberValue ''3'',
                      ''out'' \<mapsto> StringValue ''3.14''],
           constants = [''PI'' \<mapsto> NumberValue ''3.14'', ''E'' \<mapsto> NumberValue ''2.72''],
           errors = None \<rparr>
   \<and> Build (chain testEngine constantScenario Builder)
       = Inr [''PI'' \<mapsto> NumberValue ''3.2'', ''E'' \<mapsto> NumberValue ''3'']
   \<and> context (chain testEngine constantScenario Builder) ''PI'' = Some (NumberValue ''3.2'')"
proof -
  have split: "constantScenario
      = [CallSetEvalConstants [''PI'' \<mapsto> NumberValue ''3.14'']]
        @ CallMergeMap [''PI'' \<mapsto> NumberValue ''3.2'']
        # [CallSetEvalConstants [''E'' \<mapsto> NumberValue ''2.72''], CallMergeMap [''E'' \<mapsto> NumberValue ''3'']]"
    by (simp add: constantScenario_def)
  have runs: "errors (chain testEngine constantScenario Builder) = None"
    by (simp add: constantScenario_run)
  have decl: "declared constantScenario ''PI'' = Some (NumberValue ''3.14'')"
    by (simp add: constantScenario_def)
  have plain: "[''PI'' \<mapsto> NumberValue ''3.2''] ''PI'' = Some (NumberValue ''3.2'')"
    by simp
  have refers: "\<forall>vars. vars ''PI'' = Some (NumberValue ''3.14'')
                  \<longrightarrow> Eval testEngine (Reference ''PI'') vars = Inr (NumberValue ''3.14'')"
    by (simp add: testEngine_def)
  have casts: "castTo testEngine (NumberValue ''3.14'') ''string'' = Inr (StringValue ''3.14'')"
    by (simp add: testEngine_def)
  have untouched: "list_all (\<lambda>x. \<not> stores_under testEngine x ''PI'')
      [CallSetEvalConstants [''E'' \<mapsto> NumberValue ''2.72''], CallMergeMap [''E'' \<mapsto> NumberValue ''3'']]"
    by simp
  from constant_overlays_plain_merge
         [where E = testEngine and pre = "[CallSetEvalConstants [''PI'' \<mapsto> NumberValue ''3.14'']]"
            and m = "[''PI'' \<mapsto> NumberValue ''3.2'']"
            and after = "[CallSetEvalConstants [''E'' \<mapsto> NumberValue ''2.72''],
                          CallMergeMap [''E'' \<mapsto> NumberValue ''3'']]"
            and k = "''PI''" and c = "NumberValue ''3.14''" and p = "NumberValue ''3.2''"
            and t = "Reference ''PI''" and r = "NumberValue ''3.14''" and ty = "''string''"
            and r' = "StringValue ''3.14''" and key = "''out''",
          folded split, OF runs decl plain]
  have "evaluationContext (chain testEngine constantScenario Builder) ''PI'' = Some (NumberValue ''3.14'')"
    and "MergeEvalResult testEngine ''out'' (Reference ''PI'') ''string'' (chain testEngine constantScenario Builder)
         = (chain testEngine constantScenario Builder)
             \<lparr>context := (context (chain testEngine constantScenario Builder))(''out'' \<mapsto> StringValue ''3.14'')\<rparr>"
    and "Build (chain testEngine constantScenario Builder) = Inr (context (chain testEngine constantScenario Builder))"
    and "context (chain testEngine constantScenario Builder) ''PI'' = Some (NumberValue ''3.2'')"
    using refers casts untouched by (simp_all add: Let_def)
  then show ?thesis
    using runs decl by (simp add: constantScenario_run)
qed

text \<open>
  C2, as the claim states it, fails on the test "User overrides constant": the constant
  \<open>PI\<close> is declared, \<open>PI\<close> is plain-merged as 3.2, and the evaluation of \<open>${PI}\<close> is stored
  under \<open>PI\<close> itself. The evaluation sees the constant, and the built context has the
  string "3.14" under \<open>PI\<close>, not the plain-merged 3.2.
\<close>

theorem user_overrides_constant_counterexample:
  "Build (chain testEngine userOverridesConstant Builder) = Inr [''PI'' \<mapsto> StringValue ''3.14'']
   \<and> context (chain testEngine userOverridesConstant Builder) ''PI'' = Some (StringValue ''3.14'')
   \<and> context (chain testEngine userOverridesConstant Builder) ''PI'' \<noteq> Some (NumberValue ''3.2'')"
  by (simp add: userOverridesConstant_def Builder_def SetEvalConstants_def MergeMap_def MergeEvalResult_def
        evaluationContext_def testEngine_def Build_def)

text \<open>Two more of the builder's tests: defaults that refer to each other ("MergeDefaultWithEval
  template string"), and an unknown identifier ("MergeEvalResult errors").\<close>

lemma MergeDefaultWithEval_template_string:
  "Build (MergeDefaultWithEval testEngine
            [\<lparr> Name = ''a'', Default = Template (Literal ''a''), Overwrite = False, Type = [] \<rparr>,
             \<lparr> Name = ''b'', Default = Template (Reference ''a''), Overwrite = False, Type = [] \<rparr>]
            Builder)
     = Inr [''a'' \<mapsto> StringValue ''a'', ''b'' \<mapsto> StringValue ''a'']"
  by (simp add: MergeDefaultWithEval_def MergeDefault_def MergeEvalResult_def evaluationContext_def
        Builder_def Build_def testEngine_def)

lemma MergeEvalResult_unknown_identifier:
  "Build (MergeEvalResult testEngine ''a'' (Reference ''dne'') ''string'' Builder)
     = Inl (Errorf ''couldn't compute the value for %q, template: %q, %v''
             [ArgString ''a'', ArgString ''${dne}'', ArgError (New ''unknown variable accessed: dne'')])"
  by (simp add: MergeEvalResult_def evaluationContext_def Builder_def Build_def testEngine_def)

end
